theory Spec2Isabelle
  imports Complex_Main "HOL-Library.AList"
begin

section \<open>Value types (backtester/models.py)\<close>

text \<open>
  Every monetary and quantity field of the source is a Python \<^verbatim>\<open>Decimal\<close>. It is
  modelled by the exact rationals \<^typ>\<open>rat\<close>: the comparisons, sums, products and
  quotients of the source are the ones of the model, and the rounding of the decimal
  context to 28 significant digits is not represented. A \<^verbatim>\<open>datetime\<close> is a point on
  an integer time line. Python raises \<^verbatim>\<open>ValueError(message)\<close> everywhere; an
  operation that may raise returns \<open>error + 'a\<close>, with \<open>Inl\<close> the error.
\<close>

type_synonym decimal = rat
type_synonym datetime = int

datatype error = ValueError string

text \<open>
  \<^verbatim>\<open>str.strip()\<close> removes leading and trailing whitespace; on ASCII text the
  whitespace characters are the codes 9 to 13, 28 to 31 and 32.
\<close>

definition isspace :: "char \<Rightarrow> bool" where
  "isspace c = (let n = (of_char c :: nat) in (9 \<le> n \<and> n \<le> 13) \<or> (28 \<le> n \<and> n \<le> 32))"

definition strip :: "string \<Rightarrow> string" where
  "strip s = rev (dropWhile isspace (rev (dropWhile isspace s)))"

record Bar =
  timestamp :: datetime
  "open" :: decimal
  high :: decimal
  low :: decimal
  close :: decimal
  volume :: int


text \<open>
  \<^verbatim>\<open>Side\<close> is an enumeration with the members BUY and SELL. Python does not enforce
  the annotation of a field, so the \<open>side\<close> of an order or trade may hold any other
  value; \<open>NotASide s\<close> is such a value, \<open>s\<close> being its rendering by \<^verbatim>\<open>str\<close>.
\<close>

datatype Side = BUY | SELL | NotASide string

fun str_of_Side :: "Side \<Rightarrow> string" where
  "str_of_Side BUY = ''Side.BUY''"
| "str_of_Side SELL = ''Side.SELL''"
| "str_of_Side (NotASide s) = s"

record Order =
  timestamp :: datetime
  side :: Side
  quantity :: decimal
  symbol :: string


record Trade =
  timestamp :: datetime
  side :: Side
  quantity :: decimal
  price :: decimal
  fee :: decimal
  slippage :: decimal
  symbol :: string

definition Trade_post_init :: "Trade \<Rightarrow> error option" where
  "Trade_post_init t =
    (if Trade.quantity t \<le> 0 then Some (ValueError ''Trade quantity must be > 0.'')
     else if Trade.price t \<le> 0 then Some (ValueError ''Trade price must be > 0.'')
     else if Trade.fee t < 0 then Some (ValueError ''Trade fee cannot be < 0.'')
     else if Trade.slippage t < 0 then Some (ValueError ''Trade slippage cannot be < 0.'')
     else if strip (Trade.symbol t) = [] then Some (ValueError ''Trade must contain a symbol.'')
     else None)"

text \<open>The constructor call \<^verbatim>\<open>Trade(...)\<close>: the fields, then \<^verbatim>\<open>__post_init__\<close>.\<close>

definition new_Trade ::
  "datetime \<Rightarrow> Side \<Rightarrow> decimal \<Rightarrow> decimal \<Rightarrow> decimal \<Rightarrow> decimal \<Rightarrow> string \<Rightarrow> error + Trade" where
  "new_Trade ts sd q p f sl smb =
    (let t = \<lparr>Trade.timestamp = ts, side = sd, quantity = q, price = p, fee = f,
               slippage = sl, symbol = smb\<rparr>
     in case Trade_post_init t of Some e \<Rightarrow> Inl e | None \<Rightarrow> Inr t)"

definition notional_value :: "Trade \<Rightarrow> decimal" where
  "notional_value t = Trade.quantity t * Trade.price t"

definition transaction_cost :: "Trade \<Rightarrow> decimal" where
  "transaction_cost t = Trade.fee t + Trade.slippage t"

record Position =
  symbol :: string
  quantity :: decimal
  average_price :: decimal

definition Position_post_init :: "Position \<Rightarrow> error option" where
  "Position_post_init pos =
    (if Position.quantity pos \<le> 0 then Some (ValueError ''Position quantity must be > 0.'')
     else if average_price pos \<le> 0 then Some (ValueError ''Average price must be > 0.'')
     else if strip (Position.symbol pos) = [] then Some (ValueError ''Position must contain a symbol.'')
     else None)"

definition new_Position :: "string \<Rightarrow> decimal \<Rightarrow> decimal \<Rightarrow> error + Position" where
  "new_Position smb q ap =
    (let pos = \<lparr>Position.symbol = smb, quantity = q, average_price = ap\<rparr>
     in case Position_post_init pos of Some e \<Rightarrow> Inl e | None \<Rightarrow> Inr pos)"

record PortfolioSnapshot =
  timestamp :: datetime
  cash :: decimal
  positions_value :: decimal



section \<open>Execution model (backtester/execution.py)\<close>

record ExecutionModel =
  fee_per_trade :: decimal
  slippage_bps :: decimal
  fill_trade_on :: string


text \<open>Line 52 of \<^verbatim>\<open>execute\<close>: the price of the bar the fill starts from.\<close>

definition base_price :: "ExecutionModel \<Rightarrow> Bar \<Rightarrow> decimal" where
  "base_price self bar = (if fill_trade_on self = ''open'' then Bar.open bar else Bar.close bar)"

definition execute :: "ExecutionModel \<Rightarrow> Order \<Rightarrow> Bar \<Rightarrow> error + Trade" where
  "execute self ord bar =
    (if Order.quantity ord \<le> 0 then Inl (ValueError ''Order quantity must be > 0.'')
     else if Order.symbol ord = [] then Inl (ValueError ''Order symbol required.'')
     else
       let slippage_rate = slippage_bps self / 10000;
           fill_price = (if Order.side ord = BUY then base_price self bar * (1 + slippage_rate)
                         else base_price self bar * (1 - slippage_rate));
           slippage_cost = \<bar>fill_price - base_price self bar\<bar> * Order.quantity ord;
           fee = fee_per_trade self
       in new_Trade (Bar.timestamp bar) (Order.side ord) (Order.quantity ord) fill_price fee
            slippage_cost (Order.symbol ord))"

section \<open>Portfolio (backtester/portfolio.py)\<close>

text \<open>
  The \<^verbatim>\<open>positions\<close> dictionary is an association list in insertion order, as a Python
  \<^verbatim>\<open>dict\<close> is: \<open>map_of\<close> is \<^verbatim>\<open>get\<close>, \<open>AList.update\<close> is item assignment (in place
  for a key already there, at the end for a new one), \<open>AList.delete\<close> is \<^verbatim>\<open>del\<close>.
\<close>

record Portfolio =
  cash :: decimal
  equity_curve :: "PortfolioSnapshot list"
  positions :: "(string \<times> Position) list"
  trades :: "Trade list"

text \<open>
  \<^verbatim>\<open>apply_trade\<close>, lines 36 to 45: the cash leg. The two raises of this part come before
  any assignment.
\<close>

definition apply_trade_cash :: "Trade \<Rightarrow> Portfolio \<Rightarrow> error + Portfolio" where
  "apply_trade_cash trade self =
    (if Trade.side trade = BUY then
       let amount = notional_value trade + Trade.fee trade + Trade.slippage trade
       in if Portfolio.cash self < amount
            then Inl (ValueError ''Insufficient cash to execute BUY trade.'')
          else Inr (self\<lparr>Portfolio.cash := Portfolio.cash self - amount\<rparr>)
     else if Trade.side trade = SELL then
       let amount = notional_value trade - Trade.fee trade - Trade.slippage trade
       in Inr (self\<lparr>Portfolio.cash := Portfolio.cash self + amount\<rparr>)
     else Inl (ValueError (''Unsupported trade side: '' @ str_of_Side (Trade.side trade))))"

text \<open>
  Lines 47 to 82: the position leg, run on the portfolio the cash leg has left. Every
  raise of this part (the oversell check, a \<^verbatim>\<open>Position\<close> the constructor refuses) comes
  before the assignment to \<^verbatim>\<open>self.positions\<close>.
\<close>

definition apply_trade_position :: "Trade \<Rightarrow> Portfolio \<Rightarrow> error + Portfolio" where
  "apply_trade_position trade self =
    (let position = map_of (positions self) (Trade.symbol trade) in
     if Trade.side trade = BUY then
       (case position of
          None \<Rightarrow>
            (case new_Position (Trade.symbol trade) (Trade.quantity trade) (Trade.price trade) of
               Inl e \<Rightarrow> Inl e
             | Inr pos \<Rightarrow>
                 Inr (self\<lparr>positions := AList.update (Trade.symbol trade) pos (positions self)\<rparr>))
        | Some position \<Rightarrow>
            let new_quantity = Position.quantity position + Trade.quantity trade;
                new_average_price =
                  ((average_price position * Position.quantity position) +
                   (Trade.price trade * Trade.quantity trade)) / new_quantity
            in (case new_Position (Trade.symbol trade) new_quantity new_average_price of
                  Inl e \<Rightarrow> Inl e
                | Inr pos \<Rightarrow>
                    Inr (self\<lparr>positions := AList.update (Trade.symbol trade) pos (positions self)\<rparr>)))
     else
       (case position of
          None \<Rightarrow> Inl (ValueError ''Cannot sell more than existing position.'')
        | Some position \<Rightarrow>
            if Position.quantity position < Trade.quantity trade
              then Inl (ValueError ''Cannot sell more than existing position.'')
            else
              let new_quantity = Position.quantity position - Trade.quantity trade
              in if new_quantity = 0
                   then Inr (self\<lparr>positions := AList.delete (Trade.symbol trade) (positions self)\<rparr>)
                 else
                   (case new_Position (Trade.symbol trade) new_quantity (average_price position) of
                      Inl e \<Rightarrow> Inl e
                    | Inr pos \<Rightarrow>
                        Inr (self\<lparr>positions :=
                                    AList.update (Trade.symbol trade) pos (positions self)\<rparr>))))"

text \<open>
  \<^verbatim>\<open>apply_trade\<close> mutates the portfolio in place and may raise half way. The model
  returns the outcome together with the portfolio as the call leaves it, so that the
  state after a raise can be inspected: when the cash leg raises it is the portfolio
  of the call, when the position leg raises it is the portfolio the cash leg left.
\<close>

definition apply_trade :: "Trade \<Rightarrow> Portfolio \<Rightarrow> (error + unit) \<times> Portfolio" where
  "apply_trade trade self =
    (case apply_trade_cash trade self of
       Inl e \<Rightarrow> (Inl e, self)
     | Inr self1 \<Rightarrow>
         (case apply_trade_position trade self1 of
            Inl e \<Rightarrow> (Inl e, self1)
          | Inr self2 \<Rightarrow> (Inr (), self2\<lparr>trades := trades self2 @ [trade]\<rparr>)))"

text \<open>The loop of \<^verbatim>\<open>mark_to_market\<close> over \<^verbatim>\<open>self.positions.items()\<close>.\<close>

fun positions_value_loop ::
  "(string \<times> Position) list \<Rightarrow> (string \<rightharpoonup> decimal) \<Rightarrow> decimal \<Rightarrow> error + decimal" where
  "positions_value_loop [] close_prices pv = Inr pv"
| "positions_value_loop ((smb, position) # rest) close_prices pv =
    (case close_prices smb of
       None \<Rightarrow> Inl (ValueError (''Missing close price for symbol: '' @ smb @ ''.''))
     | Some p \<Rightarrow>
         positions_value_loop rest close_prices (pv + Position.quantity position * p))"

definition mark_to_market ::
  "datetime \<Rightarrow> (string \<rightharpoonup> decimal) \<Rightarrow> Portfolio \<Rightarrow> (error + PortfolioSnapshot) \<times> Portfolio" where
  "mark_to_market ts close_prices self =
    (case positions_value_loop (positions self) close_prices 0 of
       Inl e \<Rightarrow> (Inl e, self)
     | Inr pv \<Rightarrow>
         let snapshot = \<lparr>PortfolioSnapshot.timestamp = ts,
                          PortfolioSnapshot.cash = Portfolio.cash self, positions_value = pv\<rparr>
         in (Inr snapshot, self\<lparr>equity_curve := equity_curve self @ [snapshot]\<rparr>))"


section \<open>Metrics (backtester/metrics.py)\<close>

record Metrics =
  equity_curve :: "PortfolioSnapshot list"













section \<open>Notions the properties are stated with\<close>

text \<open>Every holding has a positive quantity and a positive average price.\<close>

definition holdings_valid :: "Portfolio \<Rightarrow> bool" where
  "holdings_valid p =
     list_all (\<lambda>(smb, pos). 0 < Position.quantity pos \<and> 0 < average_price pos) (positions p)"

text \<open>
  The portfolios a run can reach: it starts with some cash and nothing else, and every
  call of \<^verbatim>\<open>apply_trade\<close> or \<^verbatim>\<open>mark_to_market\<close>, whether it returns or raises,
  leaves the next one.
\<close>

inductive reachable :: "Portfolio \<Rightarrow> bool" where
  initial: "reachable \<lparr>Portfolio.cash = c, equity_curve = [], positions = [], trades = []\<rparr>"
| after_apply_trade: "reachable p \<Longrightarrow> reachable (snd (apply_trade t p))"
| after_mark_to_market: "reachable p \<Longrightarrow> reachable (snd (mark_to_market ts close_prices p))"





section \<open>Properties of the portfolio\<close>

subsection \<open>Constructors that accept their arguments\<close>



subsection \<open>The portfolio a raising call leaves\<close>

lemma apply_trade_cash_positions:
  "apply_trade_cash t p = Inr p1 \<Longrightarrow>
     positions p1 = positions p \<and> trades p1 = trades p \<and>
     Portfolio.equity_curve p1 = Portfolio.equity_curve p"
  by (auto simp: apply_trade_cash_def Let_def split: if_splits)

text \<open>Whatever raises, the holdings, the trade log and the equity curve are untouched.\<close>

lemma apply_trade_error_state:
  assumes "fst (apply_trade t p) = Inl e"
  shows "positions (snd (apply_trade t p)) = positions p"
    and "trades (snd (apply_trade t p)) = trades p"
    and "Portfolio.equity_curve (snd (apply_trade t p)) = Portfolio.equity_curve p"
  using assms apply_trade_cash_positions [of t p]
  by (auto simp: apply_trade_def split: sum.splits)

text \<open>
  A raise of the cash leg (insufficient funds, unsupported side) leaves the whole
  portfolio as it was.
\<close>

lemma apply_trade_cash_error_unchanged:
  "apply_trade_cash t p = Inl e \<Longrightarrow> apply_trade t p = (Inl e, p)"
  by (simp add: apply_trade_def)

text \<open>
  Claim C1 (all-or-nothing application: when \<^verbatim>\<open>apply_trade\<close> raises, cash, holdings
  and trade log are as before the call). The oversell check of a SELL runs after
  \<^verbatim>\<open>self.cash += amount\<close>: selling one unit at 100 from a portfolio with cash 0 and no
  holding raises the oversell error and leaves cash 100.
\<close>

theorem apply_trade_oversell_keeps_sale_proceeds:
  "Trade_post_init \<lparr>Trade.timestamp = 1, side = SELL, quantity = 1, price = 100, fee = 0,
       slippage = 0, symbol = ''AAPL''\<rparr> = None \<and>
   apply_trade
     \<lparr>Trade.timestamp = 1, side = SELL, quantity = 1, price = 100, fee = 0,
       slippage = 0, symbol = ''AAPL''\<rparr>
     \<lparr>Portfolio.cash = 0, equity_curve = [], positions = [], trades = []\<rparr>
   = (Inl (ValueError ''Cannot sell more than existing position.''),
      \<lparr>Portfolio.cash = 100, equity_curve = [], positions = [], trades = []\<rparr>)"
  by (simp add: apply_trade_def apply_trade_cash_def apply_trade_position_def
      notional_value_def Trade_post_init_def strip_def isspace_def)

subsection \<open>Successful calls\<close>









subsection \<open>The holdings stay valid\<close>

lemma new_Position_valid:
  "new_Position s q ap = Inr pos \<Longrightarrow> 0 < Position.quantity pos \<and> 0 < average_price pos"
  by (auto simp: new_Position_def Position_post_init_def Let_def split: if_splits)

lemma list_all_update:
  "list_all (\<lambda>(k, v). P v) al \<Longrightarrow> P v \<Longrightarrow> list_all (\<lambda>(k, v). P v) (AList.update k v al)"
  by (induction al) (auto simp: AList.update.simps)

lemma list_all_delete:
  "list_all (\<lambda>(k, v). P v) al \<Longrightarrow> list_all (\<lambda>(k, v). P v) (AList.delete k al)"
  by (induction al) (auto simp: AList.delete_eq)

lemma apply_trade_position_valid:
  assumes "holdings_valid p" and "apply_trade_position t p = Inr p'"
  shows "holdings_valid p'"
  using assms new_Position_valid
  unfolding holdings_valid_def apply_trade_position_def Let_def
  by (auto split: if_splits option.splits sum.splits
      intro!: list_all_update [where P = "\<lambda>pos. 0 < Position.quantity pos \<and> 0 < average_price pos"]
              list_all_delete [where P = "\<lambda>pos. 0 < Position.quantity pos \<and> 0 < average_price pos"])

lemma apply_trade_valid:
  assumes "holdings_valid p"
  shows "holdings_valid (snd (apply_trade t p))"
proof (cases "apply_trade_cash t p")
  case (Inl e)
  then show ?thesis using assms by (simp add: apply_trade_def)
next
  case (Inr p1)
  then have "positions p1 = positions p"
    by (auto simp: apply_trade_cash_def Let_def split: if_splits)
  with assms have v1: "holdings_valid p1" by (simp add: holdings_valid_def)
  show ?thesis
  proof (cases "apply_trade_position t p1")
    case (Inl e)
    with Inr v1 show ?thesis by (simp add: apply_trade_def)
  next
    case r: (Inr p2)
    from apply_trade_position_valid [OF v1 r] have "holdings_valid p2" .
    then have "holdings_valid (p2\<lparr>trades := trades p2 @ [t]\<rparr>)"
      by (simp add: holdings_valid_def)
    with Inr r show ?thesis by (simp add: apply_trade_def)
  qed
qed

lemma mark_to_market_positions:
  "positions (snd (mark_to_market ts cp p)) = positions p"
  by (simp add: mark_to_market_def Let_def split: sum.splits)

lemma mark_to_market_valid:
  "holdings_valid p \<Longrightarrow> holdings_valid (snd (mark_to_market ts cp p))"
  by (simp add: holdings_valid_def mark_to_market_positions)

lemma reachable_valid: "reachable p \<Longrightarrow> holdings_valid p"
proof (induction rule: reachable.induct)
  case (initial c)
  show ?case by (simp add: holdings_valid_def)
next
  case (after_apply_trade p t)
  then show ?case by (simp add: apply_trade_valid)
next
  case (after_mark_to_market p ts close_prices)
  then show ?case by (simp add: mark_to_market_valid)
qed

text \<open>
  Claim C9 (holdings invariant). Every holding of a reachable portfolio has quantity
  and average price above zero; a call of \<^verbatim>\<open>apply_trade\<close> or \<^verbatim>\<open>mark_to_market\<close>,
  returning or raising, keeps that; and a SELL of exactly the quantity held succeeds
  and removes the holding.
\<close>

theorem holdings_stay_valid:
  "(reachable p \<longrightarrow> holdings_valid p) \<and>
   (holdings_valid p \<longrightarrow>
      holdings_valid (snd (apply_trade t p)) \<and> holdings_valid (snd (mark_to_market ts cp p))) \<and>
   (Trade.side t = SELL \<and> map_of (positions p) (Trade.symbol t) = Some pos \<and>
    Position.quantity pos = Trade.quantity t \<longrightarrow>
      fst (apply_trade t p) = Inr () \<and>
      map_of (positions (snd (apply_trade t p))) (Trade.symbol t) = None)"
proof (intro conjI impI)
  show "reachable p \<Longrightarrow> holdings_valid p" by (rule reachable_valid)
  show "holdings_valid p \<Longrightarrow> holdings_valid (snd (apply_trade t p))" by (rule apply_trade_valid)
  show "holdings_valid p \<Longrightarrow> holdings_valid (snd (mark_to_market ts cp p))"
    by (rule mark_to_market_valid)
next
  assume a: "Trade.side t = SELL \<and> map_of (positions p) (Trade.symbol t) = Some pos \<and>
    Position.quantity pos = Trade.quantity t"
  then have s: "apply_trade t p =
    (Inr (), p\<lparr>Portfolio.cash := Portfolio.cash p + (notional_value t - Trade.fee t - Trade.slippage t),
               positions := AList.delete (Trade.symbol t) (positions p),
               trades := trades p @ [t]\<rparr>)"
    by (simp add: apply_trade_def apply_trade_cash_def apply_trade_position_def Let_def)
  show "fst (apply_trade t p) = Inr ()" by (simp add: s)
  show "map_of (positions (snd (apply_trade t p))) (Trade.symbol t) = None"
    by (simp add: s delete_conv')
qed

text \<open>
  The portfolio after buying 2 at 100 from cash 1000 is reachable and holds 2; selling
  the 2 empties the holdings.
\<close>

theorem holdings_stay_valid_witness:
  "holdings_valid
     \<lparr>Portfolio.cash = 800, equity_curve = [],
       positions = [(''AAPL'', \<lparr>Position.symbol = ''AAPL'', quantity = 2, average_price = 100\<rparr>)],
       trades = [\<lparr>Trade.timestamp = 1, side = BUY, quantity = 2, price = 100, fee = 0,
                   slippage = 0, symbol = ''AAPL''\<rparr>]\<rparr> \<and>
   positions (snd (apply_trade
     \<lparr>Trade.timestamp = 2, side = SELL, quantity = 2, price = 100, fee = 0, slippage = 0,
       symbol = ''AAPL''\<rparr>
     \<lparr>Portfolio.cash = 800, equity_curve = [],
       positions = [(''AAPL'', \<lparr>Position.symbol = ''AAPL'', quantity = 2, average_price = 100\<rparr>)],
       trades = [\<lparr>Trade.timestamp = 1, side = BUY, quantity = 2, price = 100, fee = 0,
                   slippage = 0, symbol = ''AAPL''\<rparr>]\<rparr>)) = []"
proof -
  let ?buy = "\<lparr>Trade.timestamp = 1, side = BUY, quantity = 2, price = 100, fee = 0,
                slippage = 0, symbol = ''AAPL''\<rparr>"
  let ?sell = "\<lparr>Trade.timestamp = 2, side = SELL, quantity = 2, price = 100, fee = 0,
                 slippage = 0, symbol = ''AAPL''\<rparr>"
  let ?pos = "\<lparr>Position.symbol = ''AAPL'', quantity = 2, average_price = 100\<rparr>"
  let ?p = "\<lparr>Portfolio.cash = 800, equity_curve = [], positions = [(''AAPL'', ?pos)],
              trades = [?buy]\<rparr>"
  have "snd (apply_trade ?buy
          \<lparr>Portfolio.cash = 1000, equity_curve = [], positions = [], trades = []\<rparr>) = ?p"
    by (simp add: apply_trade_def apply_trade_cash_def apply_trade_position_def
        notional_value_def new_Position_def Position_post_init_def strip_def isspace_def)
  with after_apply_trade [OF initial [of 1000], of ?buy] have r: "reachable ?p"
    by simp
  have h: "Trade.side ?sell = SELL \<and> map_of (positions ?p) (Trade.symbol ?sell) = Some ?pos \<and>
      Position.quantity ?pos = Trade.quantity ?sell"
    by simp
  from holdings_stay_valid [of ?p ?sell 3 Map.empty ?pos] r h
  have "holdings_valid ?p" and "fst (apply_trade ?sell ?p) = Inr ()"
     and "holdings_valid (snd (apply_trade ?sell ?p))"
    by blast+
  moreover have "positions (snd (apply_trade ?sell ?p)) = []"
    by (simp add: apply_trade_def apply_trade_cash_def apply_trade_position_def
        notional_value_def AList.delete_eq)
  ultimately show ?thesis by simp
qed

section \<open>Properties of the execution model\<close>












section \<open>Properties of the metrics\<close>

subsection \<open>Total return\<close>



subsection \<open>Period returns\<close>





subsection \<open>Maximum drawdown\<close>













subsection \<open>Sharpe ratio\<close>






end
